theory Spec2Isabelle
  imports Main
begin

section \<open>The generated header \<open>rnskiaJSI.h\<close>\<close>

text \<open>
  The header declares the typed interface \<open>NativeSkiaModuleCxxSpecJSI\<close> and the class
  template \<open>NativeSkiaModuleCxxSpec<T>\<close> with its private inner class \<open>Delegate\<close>.
  Everything the header calls is code of the host framework (\<open>TurboModule\<close>,
  \<open>bridging::callFromJs\<close>, \<open>bridging::getParameterCount\<close>) or of the generated
  \<open>.cpp\<close> file (the constructor of \<open>NativeSkiaModuleCxxSpecJSI\<close>); none of it is
  part of the header. Those functions are parameters of the model, collected in the
  record \<open>host\<close>, and every theorem holds for every choice of them.

  C++ members whose names end in an underscore (\<open>instance_\<close>, \<open>delegate_\<close>,
  \<open>jsInvoker_\<close>) carry the suffix \<open>_f\<close> here, since a name of a record field may
  not end in an underscore.
\<close>

subsection \<open>Declarations\<close>

text \<open>
  The member declarations of a class, as data: the access section a member stands in,
  whether it is declared \<open>virtual\<close>, \<open>= 0\<close> or \<open>override\<close>, its parameter types
  and its return type (a constructor has none).
\<close>

datatype access = Public | Protected | Private

datatype member_kind = Constructor | Method | Static_constant | Field

datatype cpp_type =
    Bool
  | Runtime_ref
  | Value
  | PropNameID_cref
  | PropNameID_vector
  | CallInvoker_shared_ptr
  | String_view
  | T_ptr
  | Delegate_class

record member_decl =
  decl_name :: string
  decl_access :: access
  decl_kind :: member_kind
  decl_virtual :: bool
  decl_pure :: bool
  decl_override :: bool
  decl_params :: "cpp_type list"
  decl_type :: "cpp_type option"

text \<open>Lines 18 to 25: \<open>class NativeSkiaModuleCxxSpecJSI : public TurboModule\<close>.\<close>

definition NativeSkiaModuleCxxSpecJSI_members :: "member_decl list" where
  "NativeSkiaModuleCxxSpecJSI_members =
    [\<lparr>decl_name = ''NativeSkiaModuleCxxSpecJSI'', decl_access = Protected,
      decl_kind = Constructor,
      decl_virtual = False, decl_pure = False, decl_override = False,
      decl_params = [CallInvoker_shared_ptr], decl_type = None\<rparr>,
     \<lparr>decl_name = ''install'', decl_access = Public,
      decl_kind = Method,
      decl_virtual = True, decl_pure = True, decl_override = False,
      decl_params = [Runtime_ref], decl_type = Some Bool\<rparr>]"

text \<open>
  Lines 28 to 69: the members of \<open>NativeSkiaModuleCxxSpec<T>\<close>, in the order of the
  source. A member function declared \<open>override\<close> is virtual.
\<close>

definition NativeSkiaModuleCxxSpec_members :: "member_decl list" where
  "NativeSkiaModuleCxxSpec_members =
    [\<lparr>decl_name = ''create'', decl_access = Public,
      decl_kind = Method,
      decl_virtual = True, decl_pure = False, decl_override = True,
      decl_params = [Runtime_ref, PropNameID_cref], decl_type = Some Value\<rparr>,
     \<lparr>decl_name = ''getPropertyNames'', decl_access = Public,
      decl_kind = Method,
      decl_virtual = True, decl_pure = False, decl_override = True,
      decl_params = [Runtime_ref], decl_type = Some PropNameID_vector\<rparr>,
     \<lparr>decl_name = ''kModuleName'', decl_access = Public,
      decl_kind = Static_constant,
      decl_virtual = False, decl_pure = False, decl_override = False,
      decl_params = [], decl_type = Some String_view\<rparr>,
     \<lparr>decl_name = ''NativeSkiaModuleCxxSpec'', decl_access = Protected,
      decl_kind = Constructor,
      decl_virtual = False, decl_pure = False, decl_override = False,
      decl_params = [CallInvoker_shared_ptr], decl_type = None\<rparr>,
     \<lparr>decl_name = ''delegate_'', decl_access = Private,
      decl_kind = Field,
      decl_virtual = False, decl_pure = False, decl_override = False,
      decl_params = [], decl_type = Some Delegate_class\<rparr>]"

text \<open>Lines 47 to 66: the members of the inner class \<open>Delegate\<close>.\<close>

definition Delegate_members :: "member_decl list" where
  "Delegate_members =
    [\<lparr>decl_name = ''Delegate'', decl_access = Public,
      decl_kind = Constructor,
      decl_virtual = False, decl_pure = False, decl_override = False,
      decl_params = [T_ptr, CallInvoker_shared_ptr], decl_type = None\<rparr>,
     \<lparr>decl_name = ''install'', decl_access = Public,
      decl_kind = Method,
      decl_virtual = True, decl_pure = False, decl_override = True,
      decl_params = [Runtime_ref], decl_type = Some Bool\<rparr>,
     \<lparr>decl_name = ''instance_'', decl_access = Private,
      decl_kind = Field,
      decl_virtual = False, decl_pure = False, decl_override = False,
      decl_params = [], decl_type = Some T_ptr\<rparr>]"

text \<open>The member functions of a class that its clients can call.\<close>

definition public_methods :: "member_decl list \<Rightarrow> member_decl list" where
  "public_methods ms =
     filter (\<lambda>m. decl_access m = Public \<and> decl_kind m = Method) ms"

definition virtual_methods :: "member_decl list \<Rightarrow> member_decl list" where
  "virtual_methods ms = filter (\<lambda>m. decl_kind m = Method \<and> decl_virtual m) ms"

subsection \<open>The host framework\<close>

text \<open>
  Type variables: \<open>'rt\<close> a \<open>jsi::Runtime&\<close>, \<open>'inv\<close> a
  \<open>std::shared_ptr<CallInvoker>\<close>, \<open>'m\<close> a pointer to a member function
  (\<open>&T::install\<close>), \<open>'tm\<close> the state of a \<open>TurboModule\<close> base-class subobject,
  \<open>'pn\<close> a \<open>jsi::PropNameID\<close>, \<open>'v\<close> a \<open>jsi::Value\<close>, \<open>'e\<close> an exception
  of the host, \<open>'w\<close> the state of everything else the host can reach (the JS runtime,
  the state of the implementation class \<open>T\<close>).

  A call into the host takes the world and returns the new one, together with either
  the exception it raised (\<open>Inl\<close>) or its value (\<open>Inr\<close>). The methods of
  \<open>TurboModule\<close> are not \<open>const\<close>: they also return the new state of the
  subobject they were called on.

  A call into the host is synchronous: it has returned before the caller goes on, and
  it does not call back into \<open>create\<close> or \<open>getPropertyNames\<close> meanwhile. It reaches
  the fields this header declares only through the arguments it is given, for
  \<open>delegate_\<close> and \<open>instance_\<close> are private.

  Whether the call of lines 59 and 60 compiles for a given \<open>&T::install\<close> is decided
  by the templates of the host: \<open>callFromJs_compiles\<close>.
\<close>

type_synonym addr = nat

record ('rt, 'inv, 'm, 'tm, 'pn, 'v, 'e, 'w) host =
  TurboModule_ctor :: "string \<Rightarrow> 'inv \<Rightarrow> 'tm"
  NativeSkiaModuleCxxSpecJSI_ctor :: "'inv \<Rightarrow> 'tm"
  jsInvoker_f :: "'tm \<Rightarrow> 'inv"
  TurboModule_create :: "'tm \<Rightarrow> 'rt \<Rightarrow> 'pn \<Rightarrow> 'w \<Rightarrow> ('e + 'v) \<times> 'tm \<times> 'w"
  TurboModule_getPropertyNames :: "'tm \<Rightarrow> 'rt \<Rightarrow> 'w \<Rightarrow> ('e + 'pn list) \<times> 'tm \<times> 'w"
  getParameterCount :: "'m \<Rightarrow> nat"
  callFromJs_compiles :: "'m \<Rightarrow> bool"
  callFromJs :: "'rt \<Rightarrow> 'm \<Rightarrow> 'inv \<Rightarrow> addr \<Rightarrow> 'w \<Rightarrow> ('e + bool) \<times> 'w"

subsection \<open>Objects\<close>

text \<open>
  A pointer is the address of an object. \<open>reinterpret_cast<T*>(this)\<close> changes the
  static type of the pointer and keeps the address.
\<close>

definition reinterpret_cast :: "addr \<Rightarrow> addr" where
  "reinterpret_cast p = p"

text \<open>
  Lines 47 to 66: a \<open>Delegate\<close> is a \<open>NativeSkiaModuleCxxSpecJSI\<close> (hence a
  \<open>TurboModule\<close>) with the one field \<open>instance_\<close>.
\<close>

record 'tm Delegate =
  JSI_base :: 'tm
  instance_f :: addr

text \<open>
  Lines 28 to 69: a \<open>NativeSkiaModuleCxxSpec<T>\<close> is a \<open>TurboModule\<close> with the
  one field \<open>delegate_\<close>.
\<close>

record 'tm NativeSkiaModuleCxxSpec =
  TurboModule_base :: 'tm
  delegate_f :: "'tm Delegate"

text \<open>Line 38.\<close>

definition kModuleName :: string where
  "kModuleName = ''RNSkiaModule''"

text \<open>Lines 49 to 52.\<close>

definition Delegate_ctor ::
  "('rt, 'inv, 'm, 'tm, 'pn, 'v, 'e, 'w) host \<Rightarrow> addr \<Rightarrow> 'inv \<Rightarrow> 'tm Delegate" where
  "Delegate_ctor h inst jsInvoker =
     \<lparr>JSI_base = NativeSkiaModuleCxxSpecJSI_ctor h jsInvoker, instance_f = inst\<rparr>"

text \<open>Lines 41 to 43; \<open>this\<close> is the address the object is constructed at.\<close>

definition NativeSkiaModuleCxxSpec_ctor ::
  "('rt, 'inv, 'm, 'tm, 'pn, 'v, 'e, 'w) host \<Rightarrow> addr \<Rightarrow> 'inv
     \<Rightarrow> 'tm NativeSkiaModuleCxxSpec" where
  "NativeSkiaModuleCxxSpec_ctor h this jsInvoker =
     \<lparr>TurboModule_base = TurboModule_ctor h kModuleName jsInvoker,
      delegate_f = Delegate_ctor h (reinterpret_cast this) jsInvoker\<rparr>"

subsection \<open>Methods\<close>

text \<open>
  A member function that is not \<open>const\<close> returns its result (\<open>Inl\<close> an exception,
  \<open>Inr\<close> the value), the object it was called on as it is afterwards, and the world.

  Lines 59 and 60, the body of \<open>Delegate::install\<close> at run time. The implementation
  type \<open>T\<close> enters through \<open>&T::install\<close> only, the argument \<open>T_install\<close>.
\<close>

definition Delegate_install ::
  "('rt, 'inv, 'm, 'tm, 'pn, 'v, 'e, 'w) host \<Rightarrow> 'm \<Rightarrow> 'tm Delegate \<Rightarrow> 'rt \<Rightarrow> 'w
     \<Rightarrow> ('e + bool) \<times> 'tm Delegate \<times> 'w" where
  "Delegate_install h T_install d rt w =
     (case callFromJs h rt T_install (jsInvoker_f h (JSI_base d)) (instance_f d) w of
        (r, w') \<Rightarrow> (r, d, w'))"

text \<open>
  Lines 30 to 32 and 34 to 36. The call \<open>delegate_.create(rt, propName)\<close> runs
  \<open>TurboModule::create\<close> on the delegate, which \<open>Delegate\<close> inherits; so for
  \<open>getPropertyNames\<close>.
\<close>

definition Delegate_create ::
  "('rt, 'inv, 'm, 'tm, 'pn, 'v, 'e, 'w) host \<Rightarrow> 'tm Delegate \<Rightarrow> 'rt \<Rightarrow> 'pn \<Rightarrow> 'w
     \<Rightarrow> ('e + 'v) \<times> 'tm Delegate \<times> 'w" where
  "Delegate_create h d rt propName w =
     (case TurboModule_create h (JSI_base d) rt propName w of
        (r, b, w') \<Rightarrow> (r, d\<lparr>JSI_base := b\<rparr>, w'))"

definition Delegate_getPropertyNames ::
  "('rt, 'inv, 'm, 'tm, 'pn, 'v, 'e, 'w) host \<Rightarrow> 'tm Delegate \<Rightarrow> 'rt \<Rightarrow> 'w
     \<Rightarrow> ('e + 'pn list) \<times> 'tm Delegate \<times> 'w" where
  "Delegate_getPropertyNames h d runtime w =
     (case TurboModule_getPropertyNames h (JSI_base d) runtime w of
        (r, b, w') \<Rightarrow> (r, d\<lparr>JSI_base := b\<rparr>, w'))"

definition create ::
  "('rt, 'inv, 'm, 'tm, 'pn, 'v, 'e, 'w) host \<Rightarrow> 'tm NativeSkiaModuleCxxSpec \<Rightarrow> 'rt
     \<Rightarrow> 'pn \<Rightarrow> 'w \<Rightarrow> ('e + 'v) \<times> 'tm NativeSkiaModuleCxxSpec \<times> 'w" where
  "create h obj rt propName w =
     (case Delegate_create h (delegate_f obj) rt propName w of
        (r, d, w') \<Rightarrow> (r, obj\<lparr>delegate_f := d\<rparr>, w'))"

definition getPropertyNames ::
  "('rt, 'inv, 'm, 'tm, 'pn, 'v, 'e, 'w) host \<Rightarrow> 'tm NativeSkiaModuleCxxSpec \<Rightarrow> 'rt
     \<Rightarrow> 'w \<Rightarrow> ('e + 'pn list) \<times> 'tm NativeSkiaModuleCxxSpec \<times> 'w" where
  "getPropertyNames h obj runtime w =
     (case Delegate_getPropertyNames h (delegate_f obj) runtime w of
        (r, d, w') \<Rightarrow> (r, obj\<lparr>delegate_f := d\<rparr>, w'))"

subsection \<open>Compiling the body of \<open>Delegate::install\<close>\<close>

text \<open>
  Lines 55 to 57. A \<open>static_assert\<close> is evaluated by the compiler, when it compiles the
  body it stands in for \<open>T\<close>: it yields nothing at run time, and a false condition is an
  error of the build, with the message. The compiler goes on to lines 59 and 60, so the
  errors of a build are a list.
\<close>

datatype build_error =
    Static_assert_failed string
  | Ill_formed_call
  | No_matching_constructor

definition Delegate_install_static_assert ::
  "('rt, 'inv, 'm, 'tm, 'pn, 'v, 'e, 'w) host \<Rightarrow> 'm \<Rightarrow> build_error list" where
  "Delegate_install_static_assert h T_install =
     (if getParameterCount h T_install = 1 then []
      else [Static_assert_failed ''Expected install(...) to have 1 parameters''])"

definition Delegate_install_instantiate ::
  "('rt, 'inv, 'm, 'tm, 'pn, 'v, 'e, 'w) host \<Rightarrow> 'm \<Rightarrow> build_error list" where
  "Delegate_install_instantiate h T_install =
     Delegate_install_static_assert h T_install @
     (if callFromJs_compiles h T_install then [] else [Ill_formed_call])"

text \<open>
  \<open>Delegate::install\<close> is a virtual member of a class nested in a template: its body is
  compiled for \<open>T\<close> only where the program needs it, which is where the constructor of
  \<open>Delegate\<close> is compiled, for the table of virtual functions. That constructor is
  called by the constructor of line 41 alone, which is protected: by a constructor of
  \<open>T\<close>. So the body is compiled exactly for an implementation type that defines a
  constructor. A \<open>T\<close> that defines none has none at all, since the template has no
  default constructor, and cannot be constructed.

  An implementation type is given by \<open>&T::install\<close> and by whether it defines a
  constructor.
\<close>

record 'm implementation =
  install_ptr :: 'm
  defines_constructor :: bool

subsection \<open>Programs that use the module\<close>

text \<open>
  What a program does with the class, seen from this header: it constructs an object at
  an address, and the host calls \<open>create\<close> and \<open>getPropertyNames\<close> on an object and
  \<open>install\<close> on the delegate of an object. Objects come into being through the
  constructor the header declares.

  The \<open>TurboModule\<close> base of an object is open to the implementation: \<open>instance_\<close>
  points to the object, \<open>T::install\<close> runs on it and may assign the members it
  inherits (\<open>jsInvoker_\<close>, for one). So the bases of the objects, by address, are part
  of the memory that every call into the host receives and returns. The field
  \<open>delegate_\<close> is private and stays out of that memory: the state keeps the delegate
  of each object, by address.
\<close>

datatype ('rt, 'inv, 'pn) call =
    Construct addr 'inv
  | Create addr 'rt 'pn
  | GetPropertyNames addr 'rt
  | Install addr 'rt

fun is_Construct :: "('rt, 'inv, 'pn) call \<Rightarrow> bool" where
  "is_Construct (Construct this jsInvoker) = True"
| "is_Construct (Create this rt propName) = False"
| "is_Construct (GetPropertyNames this runtime) = False"
| "is_Construct (Install this rt) = False"

record ('tm, 'w) memory =
  bases :: "addr \<rightharpoonup> 'tm"
  rest :: 'w

record ('tm, 'w) state =
  delegates :: "addr \<rightharpoonup> 'tm Delegate"
  world :: "('tm, 'w) memory"

text \<open>The object at an address, if there is one: its base and its delegate.\<close>

definition object_at ::
  "('tm, 'w) state \<Rightarrow> addr \<Rightarrow> 'tm NativeSkiaModuleCxxSpec option" where
  "object_at s this =
     (case (bases (world s) this, delegates s this) of
        (Some b, Some d) \<Rightarrow> Some \<lparr>TurboModule_base = b, delegate_f = d\<rparr>
      | _ \<Rightarrow> None)"

text \<open>
  A call on an address that holds no object cannot be written in C++ and leaves the
  state as it is. After a call the base of an object is what the host has left in
  memory; \<open>create\<close> and \<open>getPropertyNames\<close> themselves write the delegate only
  (\<open>create_base\<close> and \<open>getPropertyNames_base\<close> below).
\<close>

fun step ::
  "('rt, 'inv, 'm, 'tm, 'pn, 'v, 'e, ('tm, 'w) memory) host \<Rightarrow> 'm
     \<Rightarrow> ('rt, 'inv, 'pn) call \<Rightarrow> ('tm, 'w) state \<Rightarrow> ('tm, 'w) state" where
  "step h T_install (Construct this jsInvoker) s =
     \<lparr>delegates =
        (delegates s)(this \<mapsto> delegate_f (NativeSkiaModuleCxxSpec_ctor h this jsInvoker)),
      world =
        (world s)\<lparr>bases :=
          (bases (world s))
            (this \<mapsto> TurboModule_base (NativeSkiaModuleCxxSpec_ctor h this jsInvoker))\<rparr>\<rparr>"
| "step h T_install (Create this rt propName) s =
     (case object_at s this of
        None \<Rightarrow> s
      | Some obj \<Rightarrow>
          (case create h obj rt propName (world s) of
             (r, obj', w') \<Rightarrow>
               \<lparr>delegates = (delegates s)(this \<mapsto> delegate_f obj'), world = w'\<rparr>))"
| "step h T_install (GetPropertyNames this runtime) s =
     (case object_at s this of
        None \<Rightarrow> s
      | Some obj \<Rightarrow>
          (case getPropertyNames h obj runtime (world s) of
             (r, obj', w') \<Rightarrow>
               \<lparr>delegates = (delegates s)(this \<mapsto> delegate_f obj'), world = w'\<rparr>))"
| "step h T_install (Install this rt) s =
     (case object_at s this of
        None \<Rightarrow> s
      | Some obj \<Rightarrow>
          (case Delegate_install h T_install (delegate_f obj) rt (world s) of
             (r, d, w') \<Rightarrow> \<lparr>delegates = (delegates s)(this \<mapsto> d), world = w'\<rparr>))"

fun run ::
  "('rt, 'inv, 'm, 'tm, 'pn, 'v, 'e, ('tm, 'w) memory) host \<Rightarrow> 'm
     \<Rightarrow> ('rt, 'inv, 'pn) call list \<Rightarrow> ('tm, 'w) state \<Rightarrow> ('tm, 'w) state" where
  "run h T_install [] s = s"
| "run h T_install (c # cs) s = run h T_install cs (step h T_install c s)"

definition initial :: "'w \<Rightarrow> ('tm, 'w) state" where
  "initial w = \<lparr>delegates = Map.empty, world = \<lparr>bases = Map.empty, rest = w\<rparr>\<rparr>"

text \<open>
  The build of a program on \<open>T\<close>. Where \<open>T\<close> defines a constructor, the body of
  \<open>Delegate::install\<close> is compiled for it. Where it defines none, the body is not
  compiled, and a program that constructs an object all the same has no constructor to
  call. A program runs only if its build has no error.
\<close>

definition build ::
  "('rt, 'inv, 'm, 'tm, 'pn, 'v, 'e, 'w) host \<Rightarrow> 'm implementation
     \<Rightarrow> ('rt, 'inv, 'pn) call list \<Rightarrow> build_error list" where
  "build h T cs =
     (if defines_constructor T then Delegate_install_instantiate h (install_ptr T)
      else if list_ex is_Construct cs then [No_matching_constructor]
      else [])"

definition program ::
  "('rt, 'inv, 'm, 'tm, 'pn, 'v, 'e, ('tm, 'w) memory) host \<Rightarrow> 'm implementation
     \<Rightarrow> ('rt, 'inv, 'pn) call list \<Rightarrow> 'w \<Rightarrow> build_error list + ('tm, 'w) state" where
  "program h T cs w =
     (case build h T cs of
        [] \<Rightarrow> Inr (run h (install_ptr T) cs (initial w))
      | e # es \<Rightarrow> Inl (e # es))"

text \<open>
  The invariant of self-dispatch: the delegate of every object holds the address of the
  object.
\<close>

definition self_dispatch :: "('tm, 'w) state \<Rightarrow> bool" where
  "self_dispatch s \<longleftrightarrow>
     (\<forall>this d. delegates s this = Some d \<longrightarrow> instance_f d = reinterpret_cast this)"

subsection \<open>A host to run examples on\<close>

text \<open>
  A small host on which the definitions evaluate. A member function is its parameter
  types, what a call of it yields, and the invoker it assigns to the \<open>jsInvoker_\<close> of
  the object it runs on, if it assigns one. \<open>getParameterCount\<close> counts the parameter
  types, as \<open>sizeof...(Args)\<close> does, and the bridging call compiles for a member
  function that takes the runtime and nothing else. The rest of the memory is the log of
  the calls of \<open>callFromJs\<close>: the runtime, the invoker and the instance of each. A
  \<open>TurboModule\<close> is its name and its invoker.
\<close>

record sample_method =
  method_params :: "cpp_type list"
  method_outcome :: "string + bool"
  method_sets_invoker :: "nat option"

definition sample_host ::
  "(nat, nat, sample_method, string \<times> nat, string, string option, string,
    (string \<times> nat, (nat \<times> nat \<times> addr) list) memory) host" where
  "sample_host =
    \<lparr>TurboModule_ctor = (\<lambda>name jsInvoker. (name, jsInvoker)),
     NativeSkiaModuleCxxSpecJSI_ctor = (\<lambda>jsInvoker. (''RNSkiaModule'', jsInvoker)),
     jsInvoker_f = snd,
     TurboModule_create =
       (\<lambda>b rt propName w.
          (Inr (if propName = ''install'' then Some propName else None), b, w)),
     TurboModule_getPropertyNames = (\<lambda>b rt w. (Inr [''install''], b, w)),
     getParameterCount = (\<lambda>m. length (method_params m)),
     callFromJs_compiles = (\<lambda>m. method_params m = [Runtime_ref]),
     callFromJs =
       (\<lambda>rt m jsInvoker inst w.
          (method_outcome m,
           \<lparr>bases =
              (case (method_sets_invoker m, bases w inst) of
                 (Some n, Some b) \<Rightarrow> (bases w)(inst \<mapsto> (fst b, n))
               | _ \<Rightarrow> bases w),
            rest = rest w @ [(rt, jsInvoker, inst)]\<rparr>))\<rparr>"

text \<open>
  Implementations of \<open>install\<close>: \<open>bool install(jsi::Runtime&)\<close> returning \<open>true\<close>,
  the same raising, the same assigning \<open>jsInvoker_\<close>,
  \<open>bool install(jsi::Runtime&, bool)\<close>, and \<open>bool install(bool)\<close>.
\<close>

definition install_ok :: sample_method where
  "install_ok =
     \<lparr>method_params = [Runtime_ref], method_outcome = Inr True,
      method_sets_invoker = None\<rparr>"

definition install_raising :: sample_method where
  "install_raising =
     \<lparr>method_params = [Runtime_ref], method_outcome = Inl ''boom'',
      method_sets_invoker = None\<rparr>"

definition install_sets_invoker :: sample_method where
  "install_sets_invoker =
     \<lparr>method_params = [Runtime_ref], method_outcome = Inr True,
      method_sets_invoker = Some 7\<rparr>"

definition install_two_params :: sample_method where
  "install_two_params =
     \<lparr>method_params = [Runtime_ref, Bool], method_outcome = Inr True,
      method_sets_invoker = None\<rparr>"

definition install_bool_param :: sample_method where
  "install_bool_param =
     \<lparr>method_params = [Bool], method_outcome = Inr True, method_sets_invoker = None\<rparr>"

section \<open>Helper facts\<close>

lemma Delegate_install_unfold:
  "Delegate_install h T_install d rt w =
     (fst (callFromJs h rt T_install (jsInvoker_f h (JSI_base d)) (instance_f d) w),
      d,
      snd (callFromJs h rt T_install (jsInvoker_f h (JSI_base d)) (instance_f d) w))"
  by (simp add: Delegate_install_def split: prod.split)

lemma ctor_instance:
  "instance_f (delegate_f (NativeSkiaModuleCxxSpec_ctor h this jsInvoker)) =
     reinterpret_cast this"
  by (simp add: NativeSkiaModuleCxxSpec_ctor_def Delegate_ctor_def)

lemma create_instance:
  "create h obj rt propName w = (r, obj', w') \<Longrightarrow>
     instance_f (delegate_f obj') = instance_f (delegate_f obj)"
  by (auto simp add: create_def Delegate_create_def split: prod.splits)

lemma getPropertyNames_instance:
  "getPropertyNames h obj runtime w = (r, obj', w') \<Longrightarrow>
     instance_f (delegate_f obj') = instance_f (delegate_f obj)"
  by (auto simp add: getPropertyNames_def Delegate_getPropertyNames_def split: prod.splits)

lemma create_base:
  "TurboModule_base (fst (snd (create h obj rt propName w))) = TurboModule_base obj"
  by (simp add: create_def split: prod.split)

lemma getPropertyNames_base:
  "TurboModule_base (fst (snd (getPropertyNames h obj runtime w))) = TurboModule_base obj"
  by (simp add: getPropertyNames_def split: prod.split)

lemma object_at_delegate:
  "object_at s this = Some obj \<Longrightarrow> delegates s this = Some (delegate_f obj)"
  by (auto simp add: object_at_def split: option.splits)

lemma step_self_dispatch:
  assumes "self_dispatch s"
  shows "self_dispatch (step h T_install c s)"
proof (cases c)
  case (Construct this jsInvoker)
  with assms show ?thesis
    by (simp add: self_dispatch_def ctor_instance)
next
  case (Create this rt propName)
  with assms show ?thesis
    by (auto simp add: self_dispatch_def split: option.split prod.split
          dest!: create_instance object_at_delegate)
next
  case (GetPropertyNames this runtime)
  with assms show ?thesis
    by (auto simp add: self_dispatch_def split: option.split prod.split
          dest!: getPropertyNames_instance object_at_delegate)
next
  case (Install this rt)
  with assms show ?thesis
    by (auto simp add: self_dispatch_def Delegate_install_unfold split: option.split
          dest!: object_at_delegate)
qed

lemma run_self_dispatch:
  "self_dispatch s \<Longrightarrow> self_dispatch (run h T_install cs s)"
  by (induction cs arbitrary: s) (simp_all add: step_self_dispatch)

lemma initial_self_dispatch: "self_dispatch (initial w)"
  by (simp add: self_dispatch_def initial_def)

text \<open>Without an object nothing runs: the calls of a program that constructs none.\<close>

lemma step_without_object:
  "delegates s = Map.empty \<Longrightarrow> \<not> is_Construct c \<Longrightarrow> step h T_install c s = s"
  by (cases c) (simp_all add: object_at_def split: option.split)

lemma run_without_object:
  "delegates s = Map.empty \<Longrightarrow> \<not> list_ex is_Construct cs \<Longrightarrow> run h T_install cs s = s"
  by (induction cs arbitrary: s) (simp_all add: step_without_object)

text \<open>The run-time code never asks for the parameter count.\<close>

lemma ctor_getParameterCount:
  "NativeSkiaModuleCxxSpec_ctor (h\<lparr>getParameterCount := g\<rparr>) this jsInvoker =
     NativeSkiaModuleCxxSpec_ctor h this jsInvoker"
  by (simp add: NativeSkiaModuleCxxSpec_ctor_def Delegate_ctor_def)

lemma create_getParameterCount:
  "create (h\<lparr>getParameterCount := g\<rparr>) obj rt propName w = create h obj rt propName w"
  by (simp add: create_def Delegate_create_def)

lemma getPropertyNames_getParameterCount:
  "getPropertyNames (h\<lparr>getParameterCount := g\<rparr>) obj runtime w =
     getPropertyNames h obj runtime w"
  by (simp add: getPropertyNames_def Delegate_getPropertyNames_def)

lemma Delegate_install_getParameterCount:
  "Delegate_install (h\<lparr>getParameterCount := g\<rparr>) T_install d rt w =
     Delegate_install h T_install d rt w"
  by (simp add: Delegate_install_def)

lemma step_getParameterCount:
  "step (h\<lparr>getParameterCount := g\<rparr>) T_install c s = step h T_install c s"
  by (cases c)
     (simp_all add: ctor_getParameterCount create_getParameterCount
        getPropertyNames_getParameterCount Delegate_install_getParameterCount
        cong: option.case_cong)

lemma run_getParameterCount:
  "run (h\<lparr>getParameterCount := g\<rparr>) T_install cs s = run h T_install cs s"
  by (induction cs arbitrary: s) (simp_all add: step_getParameterCount)

text \<open>
  On the sample host, where the memory holds the log of the bridging calls, one
  \<open>Delegate::install\<close> adds exactly one entry to the log.
\<close>

lemma Delegate_install_logs_one_call:
  "rest (snd (snd (Delegate_install sample_host m d rt w))) =
     rest w @ [(rt, snd (JSI_base d), instance_f d)]"
  by (simp add: Delegate_install_def sample_host_def)

text \<open>
  An exception of the implementation's \<open>install\<close> comes out of
  \<open>Delegate::install\<close> as it is, and \<open>Delegate\<close> overrides the one method of the
  interface.
\<close>

lemma Delegate_install_raising:
  "fst (Delegate_install sample_host install_raising d rt w) = Inl ''boom''"
  by (simp add: Delegate_install_def sample_host_def install_raising_def)

lemma Delegate_overrides_install:
  "map decl_name (filter decl_override Delegate_members) = [''install'']"
  by (simp add: Delegate_members_def)

text \<open>
  An \<open>install\<close> that assigns the inherited \<open>jsInvoker_\<close> changes the base of the
  object it runs on, and leaves the delegate alone.
\<close>

lemma install_may_change_base:
  "bases (world (run sample_host install_sets_invoker [Construct 4 9] (initial []))) 4 =
     Some (''RNSkiaModule'', 9) \<and>
   bases (world (run sample_host install_sets_invoker [Construct 4 9, Install 4 0]
                   (initial []))) 4 =
     Some (''RNSkiaModule'', 7) \<and>
   delegates (run sample_host install_sets_invoker [Construct 4 9, Install 4 0]
                (initial [])) 4 =
     Some \<lparr>JSI_base = (''RNSkiaModule'', 9), instance_f = 4\<rparr>"
  by (simp add: initial_def object_at_def sample_host_def install_sets_invoker_def
        kModuleName_def NativeSkiaModuleCxxSpec_ctor_def Delegate_ctor_def
        reinterpret_cast_def Delegate_install_def)

text \<open>
  One parameter is not enough for a build: \<open>bool install(bool)\<close> passes the
  assertion and fails at the bridging call.
\<close>

lemma one_parameter_need_not_build:
  "program sample_host \<lparr>install_ptr = install_bool_param, defines_constructor = True\<rparr>
     [Construct 4 9] [] = Inl [Ill_formed_call]"
  by (simp add: program_def build_def Delegate_install_instantiate_def
        Delegate_install_static_assert_def sample_host_def install_bool_param_def)

section \<open>Forwarding of \<open>install\<close>\<close>

text \<open>
  C1. For every implementation type \<open>T\<close> (through \<open>&T::install\<close>), every host and every
  runtime \<open>rt\<close>, \<open>Delegate::install(rt)\<close> is one call of \<open>bridging::callFromJs\<close> with
  \<open>rt\<close>, \<open>&T::install\<close>, the delegate's \<open>jsInvoker_\<close> and the stored \<open>instance_\<close>:
  it returns what that call returns (the \<open>bool\<close>, or the exception), unchanged, leaves
  the world as that one call leaves it, and does nothing else.
\<close>

theorem Delegate_install_is_callFromJs:
  "Delegate_install h T_install d rt w =
     (fst (callFromJs h rt T_install (jsInvoker_f h (JSI_base d)) (instance_f d) w),
      d,
      snd (callFromJs h rt T_install (jsInvoker_f h (JSI_base d)) (instance_f d) w))"
  by (simp add: Delegate_install_def split: prod.split)

section \<open>The declared interface\<close>

text \<open>
  C2. The interface \<open>NativeSkiaModuleCxxSpecJSI\<close> declares exactly one public method,
  \<open>install\<close>: it is virtual (and pure), takes one parameter, a runtime reference, and
  returns \<open>bool\<close>. It is also the only virtual method the interface declares.
\<close>

theorem NativeSkiaModuleCxxSpecJSI_only_install:
  "public_methods NativeSkiaModuleCxxSpecJSI_members =
     [\<lparr>decl_name = ''install'', decl_access = Public, decl_kind = Method,
       decl_virtual = True, decl_pure = True, decl_override = False,
       decl_params = [Runtime_ref], decl_type = Some Bool\<rparr>] \<and>
   virtual_methods NativeSkiaModuleCxxSpecJSI_members =
     public_methods NativeSkiaModuleCxxSpecJSI_members"
  by (simp add: public_methods_def virtual_methods_def
        NativeSkiaModuleCxxSpecJSI_members_def)

section \<open>The compile-time assertion\<close>

text \<open>
  C3, as stated: any \<open>T\<close> whose \<open>install\<close> does not have exactly one parameter fails
  the build. Not any: the assertion stands in the body of \<open>Delegate::install\<close> and is
  evaluated only where that body is compiled. An implementation type with a
  two-parameter \<open>install\<close> and no constructor builds, in a program that constructs no
  module.
\<close>

theorem build_fails_counterexample:
  "getParameterCount sample_host install_two_params = 2 \<and>
   program sample_host \<lparr>install_ptr = install_two_params, defines_constructor = False\<rparr>
     [] [] = Inr (initial [])"
  by (simp add: program_def build_def sample_host_def install_two_params_def)

text \<open>
  C3, amended. For every implementation type \<open>T\<close> whose \<open>install\<close> does not have
  exactly one parameter: if \<open>T\<close> defines a constructor, as it must for a module to be
  constructed, the build fails, with the message of the \<open>static_assert\<close> among its
  errors, whatever calls the program holds; and a program on \<open>T\<close> that builds
  nevertheless ends in the state it started in, so that no call of \<open>install\<close> with
  another arity is ever run.
\<close>

theorem static_assert_one_parameter:
  "getParameterCount h (install_ptr T) \<noteq> 1 \<Longrightarrow>
     (defines_constructor T \<longrightarrow>
        Static_assert_failed ''Expected install(...) to have 1 parameters''
          \<in> set (build h T cs) \<and>
        program h T cs w = Inl (build h T cs)) \<and>
     (program h T cs w = Inr s \<longrightarrow> s = initial w)"
  by (auto simp add: program_def build_def Delegate_install_instantiate_def
        Delegate_install_static_assert_def run_without_object initial_def
        split: if_splits list.splits)

theorem static_assert_one_parameter_witness:
  "getParameterCount sample_host install_two_params \<noteq> 1 \<and>
   program sample_host \<lparr>install_ptr = install_two_params, defines_constructor = True\<rparr>
     [Construct 4 9, Install 4 0] [] =
     Inl [Static_assert_failed ''Expected install(...) to have 1 parameters'',
          Ill_formed_call] \<and>
   program sample_host \<lparr>install_ptr = install_two_params, defines_constructor = False\<rparr>
     [Install 4 0] [] = Inr (initial [])"
proof -
  have count: "getParameterCount sample_host install_two_params \<noteq> 1"
    by (simp add: sample_host_def install_two_params_def)
  have errors:
    "build sample_host \<lparr>install_ptr = install_two_params, defines_constructor = True\<rparr>
       [Construct 4 9, Install 4 0] =
     [Static_assert_failed ''Expected install(...) to have 1 parameters'',
      Ill_formed_call]"
    by (simp add: build_def Delegate_install_instantiate_def
          Delegate_install_static_assert_def sample_host_def install_two_params_def)
  have builds:
    "program sample_host \<lparr>install_ptr = install_two_params, defines_constructor = False\<rparr>
       [Install 4 0] [] =
     Inr (run sample_host install_two_params [Install 4 0] (initial []))"
    by (simp add: program_def build_def)
  from count errors
    static_assert_one_parameter
      [of sample_host "\<lparr>install_ptr = install_two_params, defines_constructor = True\<rparr>"
          "[Construct 4 9, Install 4 0]" "[]"]
  have fails:
    "program sample_host \<lparr>install_ptr = install_two_params, defines_constructor = True\<rparr>
       [Construct 4 9, Install 4 0] [] =
     Inl [Static_assert_failed ''Expected install(...) to have 1 parameters'',
          Ill_formed_call]"
    by simp
  from count builds
    static_assert_one_parameter
      [of sample_host "\<lparr>install_ptr = install_two_params, defines_constructor = False\<rparr>"
          "[Install 4 0]" "[]"
          "run sample_host install_two_params [Install 4 0] (initial [])"]
  have nothing_ran:
    "run sample_host install_two_params [Install 4 0] (initial []) = initial []"
    by simp
  from count fails builds nothing_ran show ?thesis by simp
qed

text \<open>
  C5, as stated: the check of the parameter count is a run-time assertion, evaluated
  when \<open>install\<close> is invoked. Then a program that never invokes \<open>install\<close> would
  never meet the check. It does: on an implementation whose \<open>install\<close> has two
  parameters, the program that only constructs the module fails, in the build.
\<close>

theorem runtime_assertion_counterexample:
  "program sample_host \<lparr>install_ptr = install_two_params, defines_constructor = True\<rparr>
     [Construct 4 9] [] =
     Inl [Static_assert_failed ''Expected install(...) to have 1 parameters'',
          Ill_formed_call]"
  by (simp add: program_def build_def Delegate_install_instantiate_def
        Delegate_install_static_assert_def sample_host_def install_two_params_def)

text \<open>
  C5, amended. The check of the parameter count is a single compile-time assertion: its
  failure is an error of the build, exactly when the body of \<open>Delegate::install\<close> is
  compiled for \<open>T\<close> and the parameter count is not 1, whatever the program calls. At
  run time, when the method is invoked, nothing is checked: the outcome of
  \<open>Delegate::install\<close> is the outcome of the bridging call, and neither it nor any run
  of a program depends on the parameter count.
\<close>

theorem static_assert_at_build_time:
  "(Static_assert_failed ''Expected install(...) to have 1 parameters''
      \<in> set (build h T cs)) =
     (defines_constructor T \<and> getParameterCount h (install_ptr T) \<noteq> 1) \<and>
   fst (Delegate_install h' T_install d rt w) =
     fst (callFromJs h' rt T_install (jsInvoker_f h' (JSI_base d)) (instance_f d) w) \<and>
   Delegate_install (h'\<lparr>getParameterCount := g\<rparr>) T_install d rt w =
     Delegate_install h' T_install d rt w \<and>
   run (h''\<lparr>getParameterCount := g\<rparr>) T_install cs' s = run h'' T_install cs' s"
  by (simp add: build_def Delegate_install_instantiate_def
        Delegate_install_static_assert_def Delegate_install_def run_getParameterCount
        split: prod.split)

theorem static_assert_at_build_time_witness:
  "Static_assert_failed ''Expected install(...) to have 1 parameters''
     \<in> set (build sample_host
              \<lparr>install_ptr = install_two_params, defines_constructor = True\<rparr>
              [Construct 4 9]) \<and>
   run (sample_host\<lparr>getParameterCount := (\<lambda>m. 5)\<rparr>) install_ok
     [Construct 4 9, Install 4 0] (initial []) =
   run sample_host install_ok [Construct 4 9, Install 4 0] (initial [])"
proof -
  have mismatch:
    "defines_constructor
       \<lparr>install_ptr = install_two_params, defines_constructor = True\<rparr> \<and>
     getParameterCount sample_host
       (install_ptr \<lparr>install_ptr = install_two_params, defines_constructor = True\<rparr>) \<noteq> 1"
    by (simp add: sample_host_def install_two_params_def)
  from mismatch
    static_assert_at_build_time
      [of sample_host "\<lparr>install_ptr = install_two_params, defines_constructor = True\<rparr>"
          "[Construct 4 9]" sample_host install_ok
          "\<lparr>JSI_base = (''RNSkiaModule'', 9), instance_f = 4\<rparr>" 0
          "\<lparr>bases = Map.empty, rest = []\<rparr>" "\<lambda>m. 5" sample_host
          "[Construct 4 9, Install 4 0]" "initial []"]
  show ?thesis by blast
qed

section \<open>The module name\<close>

text \<open>
  C4. \<open>kModuleName\<close> is the string \<open>RNSkiaModule\<close>, and the constructor of
  \<open>NativeSkiaModuleCxxSpec\<close> initialises its \<open>TurboModule\<close> base with exactly that
  name (and the \<open>jsInvoker\<close> it was given), for every address and every invoker.
\<close>

theorem kModuleName_RNSkiaModule:
  "kModuleName = ''RNSkiaModule'' \<and>
   TurboModule_base (NativeSkiaModuleCxxSpec_ctor h this jsInvoker) =
     TurboModule_ctor h ''RNSkiaModule'' jsInvoker"
  by (simp add: kModuleName_def NativeSkiaModuleCxxSpec_ctor_def)

section \<open>Errors\<close>

text \<open>
  C6. \<open>Delegate::install(rt)\<close> raises exactly when the bridging call raises, and then
  raises the same exception; the header adds no error of its own. The same holds for
  \<open>create\<close> and \<open>getPropertyNames\<close> and the methods of \<open>TurboModule\<close> they call.
\<close>

theorem install_raises_iff_callFromJs_raises:
  "isl (fst (Delegate_install h T_install d rt w)) =
     isl (fst (callFromJs h rt T_install (jsInvoker_f h (JSI_base d)) (instance_f d) w)) \<and>
   (fst (Delegate_install h T_install d rt w) = Inl e) =
     (fst (callFromJs h rt T_install (jsInvoker_f h (JSI_base d)) (instance_f d) w) = Inl e) \<and>
   isl (fst (create h obj rt propName w)) =
     isl (fst (TurboModule_create h (JSI_base (delegate_f obj)) rt propName w)) \<and>
   isl (fst (getPropertyNames h obj rt w)) =
     isl (fst (TurboModule_getPropertyNames h (JSI_base (delegate_f obj)) rt w))"
  by (simp add: Delegate_install_def create_def getPropertyNames_def Delegate_create_def
        Delegate_getPropertyNames_def split: prod.split)

section \<open>State\<close>


text \<open>
  C8. In every state a program reaches from the start, by any calls, on any host, the
  delegate of the object at an address holds that address, cast to \<open>T*\<close>, as its
  \<open>instance_\<close>: the constructor sets it so and no method changes it. So a call of
  \<open>install\<close> on that delegate is the bridging call on the object itself: the instance
  it hands over is the address of the object.
\<close>

theorem instance_is_this:
  "delegates (run h T_install cs (initial w)) this = Some d \<Longrightarrow>
     instance_f d = reinterpret_cast this \<and>
     Delegate_install h T_install' d rt w' =
       (fst (callFromJs h rt T_install' (jsInvoker_f h (JSI_base d))
               (reinterpret_cast this) w'),
        d,
        snd (callFromJs h rt T_install' (jsInvoker_f h (JSI_base d))
               (reinterpret_cast this) w'))"
proof -
  assume at_this: "delegates (run h T_install cs (initial w)) this = Some d"
  have "self_dispatch (run h T_install cs (initial w))"
    by (rule run_self_dispatch) (rule initial_self_dispatch)
  with at_this have "instance_f d = reinterpret_cast this"
    unfolding self_dispatch_def by blast
  then show ?thesis
    by (simp add: Delegate_install_unfold)
qed

theorem instance_is_this_witness:
  "delegates (run sample_host install_ok
                [Construct 4 9, Install 4 0, Create 4 0 ''install'', GetPropertyNames 4 1]
                (initial [])) 4 =
     Some \<lparr>JSI_base = (''RNSkiaModule'', 9), instance_f = 4\<rparr> \<and>
   instance_f \<lparr>JSI_base = (''RNSkiaModule'', 9), instance_f = 4\<rparr> = reinterpret_cast 4 \<and>
   rest (snd (snd (Delegate_install sample_host install_ok
                     \<lparr>JSI_base = (''RNSkiaModule'', 9), instance_f = 4\<rparr> 1
                     \<lparr>bases = Map.empty, rest = []\<rparr>))) =
     [(1, 9, reinterpret_cast 4)]"
proof -
  have at_4:
    "delegates (run sample_host install_ok
                  [Construct 4 9, Install 4 0, Create 4 0 ''install'', GetPropertyNames 4 1]
                  (initial [])) 4 =
       Some \<lparr>JSI_base = (''RNSkiaModule'', 9), instance_f = 4\<rparr>"
    by (simp add: initial_def object_at_def sample_host_def install_ok_def kModuleName_def
          NativeSkiaModuleCxxSpec_ctor_def Delegate_ctor_def reinterpret_cast_def
          Delegate_install_def create_def Delegate_create_def getPropertyNames_def
          Delegate_getPropertyNames_def)
  have log:
    "rest (snd (callFromJs sample_host 1 install_ok
                  (jsInvoker_f sample_host
                     (JSI_base \<lparr>JSI_base = (''RNSkiaModule'', 9), instance_f = 4\<rparr>))
                  (reinterpret_cast 4) \<lparr>bases = Map.empty, rest = []\<rparr>)) =
       [(1, 9, reinterpret_cast 4)]"
    by (simp add: sample_host_def)
  from at_4 log
    instance_is_this
      [OF at_4, of install_ok 1 "\<lparr>bases = Map.empty, rest = []\<rparr>"]
  show ?thesis by simp
qed

section \<open>Forwarding of \<open>create\<close> and \<open>getPropertyNames\<close>\<close>

text \<open>
  C9. The public methods of \<open>NativeSkiaModuleCxxSpec\<close> are \<open>create\<close> and
  \<open>getPropertyNames\<close>, both overrides. For every runtime and property name each
  returns exactly what the delegate's method of the same name returns on the same
  arguments, and leaves the world as that call leaves it.
\<close>

theorem create_getPropertyNames_forward:
  "fst (create h obj rt propName w) =
     fst (Delegate_create h (delegate_f obj) rt propName w) \<and>
   snd (snd (create h obj rt propName w)) =
     snd (snd (Delegate_create h (delegate_f obj) rt propName w)) \<and>
   fst (getPropertyNames h obj rt w) =
     fst (Delegate_getPropertyNames h (delegate_f obj) rt w) \<and>
   snd (snd (getPropertyNames h obj rt w)) =
     snd (snd (Delegate_getPropertyNames h (delegate_f obj) rt w)) \<and>
   map decl_name (public_methods NativeSkiaModuleCxxSpec_members) =
     [''create'', ''getPropertyNames''] \<and>
   list_all decl_override (public_methods NativeSkiaModuleCxxSpec_members)"
  by (simp add: create_def getPropertyNames_def public_methods_def
        NativeSkiaModuleCxxSpec_members_def split: prod.split)

end
